theory Spec2Isabelle
  imports Main "HOL-Library.Char_ord" "HOL-Library.Sublist" "HOL-Library.Multiset"
begin

section \<open>Python strings\<close>

text \<open>
  A Python \<^verbatim>\<open>str\<close> is modelled as a \<^typ>\<open>string\<close>. The character predicates below are
  those of Python on ASCII characters; a character outside ASCII is treated as neither a
  letter, a digit, a word character nor white space.
\<close>

definition is_upper :: "char \<Rightarrow> bool" where
  "is_upper c = (CHR ''A'' \<le> c \<and> c \<le> CHR ''Z'')"

definition is_lower :: "char \<Rightarrow> bool" where
  "is_lower c = (CHR ''a'' \<le> c \<and> c \<le> CHR ''z'')"

definition is_digit :: "char \<Rightarrow> bool" where
  "is_digit c = (CHR ''0'' \<le> c \<and> c \<le> CHR ''9'')"

definition is_alpha :: "char \<Rightarrow> bool" where
  "is_alpha c = (is_upper c \<or> is_lower c)"

text \<open>\<^verbatim>\<open>str.isspace\<close> on ASCII: TAB, LF, VT, FF, CR, the separators 0x1C to 0x1F, and the blank.\<close>

definition is_space :: "char \<Rightarrow> bool" where
  "is_space c = (let n = (of_char c :: nat) in (9 \<le> n \<and> n \<le> 13) \<or> (28 \<le> n \<and> n \<le> 32))"

text \<open>The class \<^verbatim>\<open>\w\<close> of the \<^verbatim>\<open>re\<close> module on ASCII.\<close>

definition is_word :: "char \<Rightarrow> bool" where
  "is_word c = (is_alpha c \<or> is_digit c \<or> c = CHR ''_'')"

definition lower_char :: "char \<Rightarrow> char" where
  "lower_char c = (if is_upper c then char_of (of_char c + (32::nat)) else c)"

definition upper_char :: "char \<Rightarrow> char" where
  "upper_char c = (if is_lower c then char_of (of_char c - (32::nat)) else c)"

text \<open>\<^verbatim>\<open>s.lower()\<close>\<close>

definition str_lower :: "string \<Rightarrow> string" where
  "str_lower s = map lower_char s"

text \<open>
  \<^verbatim>\<open>s.title()\<close>: a letter that follows a letter is put in lower case, any other letter in
  upper case.
\<close>

fun title_from :: "bool \<Rightarrow> string \<Rightarrow> string" where
  "title_from prev [] = []"
| "title_from prev (c # cs) =
     (if is_alpha c then (if prev then lower_char c else upper_char c) else c)
       # title_from (is_alpha c) cs"

definition str_title :: "string \<Rightarrow> string" where
  "str_title s = title_from False s"

text \<open>\<^verbatim>\<open>s.strip()\<close>\<close>

definition str_strip :: "string \<Rightarrow> string" where
  "str_strip s = rev (dropWhile is_space (rev (dropWhile is_space s)))"

text \<open>\<^verbatim>\<open>s.replace(c, new)\<close> for a pattern \<open>c\<close> of one character.\<close>

definition str_replace :: "char \<Rightarrow> string \<Rightarrow> string \<Rightarrow> string" where
  "str_replace c new s = concat (map (\<lambda>d. if d = c then new else [d]) s)"

text \<open>\<^verbatim>\<open>sep.join(xs)\<close>\<close>

fun str_join :: "string \<Rightarrow> string list \<Rightarrow> string" where
  "str_join sep [] = []"
| "str_join sep [x] = x"
| "str_join sep (x # y # ys) = x @ sep @ str_join sep (y # ys)"

text \<open>\<^verbatim>\<open>xs[:k]\<close>: a negative bound counts from the end of the list.\<close>

definition slice_to :: "int \<Rightarrow> 'a list \<Rightarrow> 'a list" where
  "slice_to k xs = (if 0 \<le> k then take (nat k) xs else take (nat (int (length xs) + k)) xs)"

text \<open>\<^verbatim>\<open>x in s\<close> on strings: \<open>x\<close> occurs in \<open>s\<close> as a contiguous substring.\<close>

fun starts_with :: "string \<Rightarrow> string \<Rightarrow> bool" where
  "starts_with [] s = True"
| "starts_with (x # xs) [] = False"
| "starts_with (x # xs) (c # cs) = (x = c \<and> starts_with xs cs)"

fun contains :: "string \<Rightarrow> string \<Rightarrow> bool" where
  "contains x [] = (x = [])"
| "contains x (c # cs) = (starts_with x (c # cs) \<or> contains x cs)"

section \<open>The regular expressions of the source\<close>

text \<open>
  The patterns of the source are sequences of literal characters, word boundaries and
  greedy repetitions of a character class. \<open>Rep cl lo hi\<close> is the class \<open>cl\<close> repeated at
  least \<open>lo\<close> times and, when \<open>hi\<close> is given, at most that many times.
\<close>

datatype cls = Range char char | One char | Digit | Space

datatype item = Lit char | WordB | Rep "cls list" nat "nat option"

fun in_cls :: "cls \<Rightarrow> char \<Rightarrow> bool" where
  "in_cls (Range a b) c = (a \<le> c \<and> c \<le> b)"
| "in_cls (One a) c = (c = a)"
| "in_cls Digit c = is_digit c"
| "in_cls Space c = is_space c"

definition in_class :: "cls list \<Rightarrow> char \<Rightarrow> bool" where
  "in_class cl c = list_ex (\<lambda>k. in_cls k c) cl"

text \<open>\<^verbatim>\<open>\b\<close>: exactly one of the characters before and after the position is a word character.\<close>

definition word_before :: "char option \<Rightarrow> bool" where
  "word_before prev = (case prev of None \<Rightarrow> False | Some c \<Rightarrow> is_word c)"

definition word_after :: "string \<Rightarrow> bool" where
  "word_after s = (case s of [] \<Rightarrow> False | c # _ \<Rightarrow> is_word c)"

definition at_boundary :: "char option \<Rightarrow> string \<Rightarrow> bool" where
  "at_boundary prev s = (word_before prev \<noteq> word_after s)"

definition under :: "nat option \<Rightarrow> nat \<Rightarrow> bool" where
  "under hi k = (case hi of None \<Rightarrow> True | Some h \<Rightarrow> k < h)"

text \<open>
  The backtracking matcher. \<open>match_here p prev s\<close> matches the pattern \<open>p\<close> at the start
  of \<open>s\<close>, where \<open>prev\<close> is the character before \<open>s\<close> in the text, and returns the number of
  characters of the first match in the order the backtracking tries them: a repetition
  takes as many characters as it can and gives them back one at a time.
  \<open>rep_here cl lo hi p prev s k\<close> is the repetition after \<open>k\<close> characters of it.
\<close>

function match_here :: "item list \<Rightarrow> char option \<Rightarrow> string \<Rightarrow> nat option"
  and rep_here :: "cls list \<Rightarrow> nat \<Rightarrow> nat option \<Rightarrow> item list \<Rightarrow> char option \<Rightarrow> string \<Rightarrow> nat \<Rightarrow> nat option"
where
  "match_here [] prev s = Some 0"
| "match_here (Lit c # p) prev [] = None"
| "match_here (Lit c # p) prev (d # s) =
     (if d = c then map_option Suc (match_here p (Some d) s) else None)"
| "match_here (WordB # p) prev s = (if at_boundary prev s then match_here p prev s else None)"
| "match_here (Rep cl lo hi # p) prev s = rep_here cl lo hi p prev s 0"
| "rep_here cl lo hi p prev [] k = (if lo \<le> k then match_here p prev [] else None)"
| "rep_here cl lo hi p prev (d # s) k =
     (case (if in_class cl d \<and> under hi k then rep_here cl lo hi p (Some d) s (Suc k) else None) of
        Some n \<Rightarrow> Some (Suc n)
      | None \<Rightarrow> if lo \<le> k then match_here p prev (d # s) else None)"
  by pat_completeness auto
termination
  by (relation "measure (\<lambda>x. case x of
        Inl (p, prev, s) \<Rightarrow> 2 * length p + length s
      | Inr (cl, lo, hi, p, prev, s, k) \<Rightarrow> 2 * length p + 1 + length s)") auto

text \<open>
  \<^verbatim>\<open>re.findall(p, s)\<close> for a pattern without groups: the matches of \<open>p\<close> in \<open>s\<close> from left to
  right, each search starting where the match before it ended. \<open>prev\<close> is the character
  before \<open>s\<close>. (After an empty match the search moves on by one character; no pattern of
  the source matches the empty string.)
\<close>

function findall_from :: "item list \<Rightarrow> char option \<Rightarrow> string \<Rightarrow> string list" where
  "findall_from p prev [] = (case match_here p prev [] of Some n \<Rightarrow> [[]] | None \<Rightarrow> [])"
| "findall_from p prev (c # s) =
     (case match_here p prev (c # s) of
        None \<Rightarrow> findall_from p (Some c) s
      | Some 0 \<Rightarrow> [] # findall_from p (Some c) s
      | Some (Suc n) \<Rightarrow> take (Suc n) (c # s) # findall_from p (Some ((c # s) ! n)) (drop n s))"
  by pat_completeness auto
termination
  by (relation "measure (\<lambda>(p, prev, s). length s)") auto

definition findall :: "item list \<Rightarrow> string \<Rightarrow> string list" where
  "findall p s = findall_from p None s"

section \<open>Field extraction (resume\_parser.py)\<close>

text \<open>
  \<^verbatim>\<open>\b[A-Za-z0-9._%+-]+@[A-Za-z0-9.-]+\.[A-Z|a-z]{2,}\b\<close>
  (the bar inside the last class is a literal character).
\<close>

definition email_pattern :: "item list" where
  "email_pattern =
     [WordB,
      Rep [Range CHR ''A'' CHR ''Z'', Range CHR ''a'' CHR ''z'', Range CHR ''0'' CHR ''9'',
           One CHR ''.'', One CHR ''_'', One CHR ''%'', One CHR ''+'', One CHR ''-''] 1 None,
      Lit CHR ''@'',
      Rep [Range CHR ''A'' CHR ''Z'', Range CHR ''a'' CHR ''z'', Range CHR ''0'' CHR ''9'',
           One CHR ''.'', One CHR ''-''] 1 None,
      Lit CHR ''.'',
      Rep [Range CHR ''A'' CHR ''Z'', One CHR ''|'', Range CHR ''a'' CHR ''z''] 2 None,
      WordB]"

definition extract_email :: "string \<Rightarrow> string option" where
  "extract_email text = (case findall email_pattern text of [] \<Rightarrow> None | e # _ \<Rightarrow> Some e)"

text \<open>
  The four patterns of \<^verbatim>\<open>extract_phone\<close>, in the order of the source:
  \<^verbatim>\<open>\+91[-\s]?\d{10}\<close>, \<^verbatim>\<open>\+91\d{10}\<close>, \<^verbatim>\<open>\d{10}\<close> and \<^verbatim>\<open>\d{5}\s?\d{5}\<close>.
\<close>

definition phone_sep :: "item list" where
  "phone_sep = [Lit CHR ''+'', Lit CHR ''9'', Lit CHR ''1'',
                Rep [One CHR ''-'', Space] 0 (Some 1), Rep [Digit] 10 (Some 10)]"

definition phone_plain :: "item list" where
  "phone_plain = [Lit CHR ''+'', Lit CHR ''9'', Lit CHR ''1'', Rep [Digit] 10 (Some 10)]"

definition phone_ten :: "item list" where
  "phone_ten = [Rep [Digit] 10 (Some 10)]"

definition phone_five_five :: "item list" where
  "phone_five_five = [Rep [Digit] 5 (Some 5), Rep [Space] 0 (Some 1), Rep [Digit] 5 (Some 5)]"

definition phone_patterns :: "item list list" where
  "phone_patterns = [phone_sep, phone_plain, phone_ten, phone_five_five]"

text \<open>\<^verbatim>\<open>phones[0].replace(' ', '').replace('-', '')\<close>\<close>

definition clean_phone :: "string \<Rightarrow> string" where
  "clean_phone m = str_replace CHR ''-'' [] (str_replace CHR '' '' [] m)"

text \<open>The loop over the patterns: the first pattern with a match decides.\<close>

fun phone_loop :: "item list list \<Rightarrow> string \<Rightarrow> string option" where
  "phone_loop [] text = None"
| "phone_loop (pattern # rest) text =
     (case findall pattern text of
        [] \<Rightarrow> phone_loop rest text
      | m # _ \<Rightarrow> Some (clean_phone m))"

definition extract_phone :: "string \<Rightarrow> string option" where
  "extract_phone text = phone_loop phone_patterns text"

definition skill_keywords :: "string list" where
  "skill_keywords =
    [''python'', ''javascript'', ''java'', ''react'', ''node'', ''fastapi'',
     ''flask'', ''django'', ''html'', ''css'', ''sql'', ''mysql'', ''mongodb'',
     ''tensorflow'', ''pytorch'', ''scikit-learn'', ''pandas'', ''numpy'',
     ''langchain'', ''llm'', ''nlp'', ''machine learning'', ''deep learning'',
     ''ai'', ''artificial intelligence'', ''git'', ''github'', ''docker'',
     ''aws'', ''azure'', ''gcp'', ''api'', ''rest'', ''graphql'',
     ''typescript'', ''angular'', ''vue'', ''express'', ''bootstrap'',
     ''tailwind'', ''redux'', ''nextjs'', ''nestjs'', ''spring boot'',
     ''c++'', ''c#'', ''ruby'', ''php'', ''swift'', ''kotlin'', ''rust'',
     ''opencv'', ''keras'', ''spark'', ''hadoop'', ''kafka'', ''redis'',
     ''faiss'', ''hugging face'', ''rag'', ''semantic search'']"

text \<open>The loop of \<^verbatim>\<open>extract_skills\<close>: \<open>found\<close> is the list \<^verbatim>\<open>found_skills\<close> so far.\<close>

fun skills_loop :: "string list \<Rightarrow> string \<Rightarrow> string list \<Rightarrow> string list" where
  "skills_loop [] text_lower found = found"
| "skills_loop (skill # rest) text_lower found =
     skills_loop rest text_lower
       (if contains skill text_lower then found @ [str_title skill] else found)"

text \<open>
  \<^verbatim>\<open>list(set(found_skills))\<close> is a list without duplicates in an order the source does not
  fix; the result is modelled as the set of its elements.
\<close>

definition extract_skills :: "string \<Rightarrow> string set" where
  "extract_skills text = set (skills_loop skill_keywords (str_lower text) [])"

datatype error =
  WebDriverException | NoSuchElementException | KeyError | TypeError

text \<open>
  \<^verbatim>\<open>extract_text_from_pdf\<close>. The document is the list of its pages, and a page is what
  pdfplumber's \<^verbatim>\<open>page.extract_text()\<close> returns for it: a string, or \<^verbatim>\<open>None\<close>. Adding
  \<^verbatim>\<open>None\<close> to a string raises \<^verbatim>\<open>TypeError\<close>.
\<close>

fun pages_loop :: "string option list \<Rightarrow> string \<Rightarrow> error + string" where
  "pages_loop [] text = Inr text"
| "pages_loop (None # pages) text = Inl TypeError"
| "pages_loop (Some t # pages) text = pages_loop pages (text @ t)"

definition extract_text_from_pdf :: "string option list \<Rightarrow> error + string" where
  "extract_text_from_pdf pages = pages_loop pages []"

text \<open>
  The same loop in \<^verbatim>\<open>upload_resume\<close> of main.py, over PyMuPDF's \<^verbatim>\<open>page.get_text()\<close>,
  which returns a string for every page.
\<close>

fun resume_text_loop :: "string list \<Rightarrow> string \<Rightarrow> string" where
  "resume_text_loop [] resume_text = resume_text"
| "resume_text_loop (t # pages) resume_text = resume_text_loop pages (resume_text @ t)"

definition upload_resume_text :: "string list \<Rightarrow> string" where
  "upload_resume_text pages = resume_text_loop pages []"

section \<open>The scraper module (linkedin\_scraper.py)\<close>

text \<open>\<^verbatim>\<open>extract_email_from_text\<close>\<close>

definition generic_email :: "string \<Rightarrow> bool" where
  "generic_email email =
     list_ex (\<lambda>x. contains x (str_lower email)) [''noreply'', ''no-reply'', ''donotreply'']"

definition extract_email_from_text :: "string \<Rightarrow> string list" where
  "extract_email_from_text text =
     (if text = [] then []
      else filter (\<lambda>email. \<not> generic_email email) (findall email_pattern text))"

text \<open>
  \<^verbatim>\<open>categorize_jobs\<close>. A job is a dictionary; \<open>hr_email_of job\<close> is \<^verbatim>\<open>job.get('hr_email')\<close>,
  \<open>None\<close> when the key is missing or its value is \<^verbatim>\<open>None\<close>. The value counts as true when it
  is a non-empty string.
\<close>

definition truthy :: "string option \<Rightarrow> bool" where
  "truthy v = (case v of None \<Rightarrow> False | Some e \<Rightarrow> e \<noteq> [])"

record 'j categorized =
  direct_contact_jobs :: "'j list"
  standard_jobs :: "'j list"
  total_jobs :: nat
  jobs_with_email :: nat
  jobs_without_email :: nat

fun categorize_loop :: "('j \<Rightarrow> string option) \<Rightarrow> 'j list \<Rightarrow> 'j list \<Rightarrow> 'j list \<Rightarrow> 'j list \<times> 'j list" where
  "categorize_loop hr_email_of [] with_email link_only = (with_email, link_only)"
| "categorize_loop hr_email_of (job # jobs) with_email link_only =
     (if truthy (hr_email_of job)
      then categorize_loop hr_email_of jobs (with_email @ [job]) link_only
      else categorize_loop hr_email_of jobs with_email (link_only @ [job]))"

definition categorize_jobs :: "('j \<Rightarrow> string option) \<Rightarrow> 'j list \<Rightarrow> 'j categorized" where
  "categorize_jobs hr_email_of jobs =
     (case categorize_loop hr_email_of jobs [] [] of
        (with_email, link_only) \<Rightarrow>
          \<lparr>direct_contact_jobs = with_email,
           standard_jobs = link_only,
           total_jobs = length jobs,
           jobs_with_email = length with_email,
           jobs_without_email = length link_only\<rparr>)"

text \<open>
  The browser, as far as the scrape functions see it: \<open>launch\<close> is the exception that
  starting Chrome raises, if any; \<open>load url\<close> is what loading the page and reading its
  job cards gives, an exception or the \<^verbatim>\<open>base-card\<close> nodes in document order.
\<close>

record 'c browser =
  launch :: "error option"
  load :: "string \<Rightarrow> error + 'c list"

text \<open>\<^verbatim>\<open>get_experience_level\<close> (the second definition of the module, which is the one in force).\<close>

definition get_experience_level :: "int option \<Rightarrow> string" where
  "get_experience_level years =
     (case years of
        None \<Rightarrow> ''All Levels''
      | Some y \<Rightarrow>
          if y = 0 then ''Fresher/Internship (0 years)''
          else if y \<le> 2 then ''Entry Level (0-2 years)''
          else if y \<le> 5 then ''Mid Level (2-5 years)''
          else ''Senior Level (5+ years)'')"

text \<open>The experience filter that \<^verbatim>\<open>scrape_linkedin_jobs\<close> of the module adds to the URL.\<close>

definition experience_filter :: "int option \<Rightarrow> string" where
  "experience_filter experience_years =
     (case experience_years of
        None \<Rightarrow> []
      | Some y \<Rightarrow>
          if y = 0 then ''&f_E=1''
          else if y \<le> 2 then ''&f_E=1,2''
          else if y \<le> 5 then ''&f_E=3,4''
          else ''&f_E=5,6'')"

definition ls_url :: "string list \<Rightarrow> string \<Rightarrow> int option \<Rightarrow> string" where
  "ls_url skills location experience_years =
     ''https://www.linkedin.com/jobs/search/?keywords='' @ str_join ''+'' (take 3 skills)
       @ ''&location='' @ location @ experience_filter experience_years"

text \<open>
  A job card as Selenium shows it: the text of the title, subtitle and location elements
  and the anchor, each \<open>None\<close> when \<^verbatim>\<open>find_element\<close> raises; for the anchor, the value of
  \<^verbatim>\<open>get_attribute("href")\<close>, which is \<^verbatim>\<open>None\<close> for a missing attribute.
\<close>

record ls_card =
  ls_title_elem :: "string option"
  ls_company_elem :: "string option"
  ls_location_elem :: "string option"
  ls_link_elem :: "string option option"

record ls_job =
  ls_id :: int
  ls_title :: string
  ls_company :: string
  ls_location :: string
  ls_link :: "string option"
  ls_hr_email :: "string option"

definition ls_parse_card :: "int \<Rightarrow> ls_card \<Rightarrow> error + ls_job" where
  "ls_parse_card idx c =
     (case ls_title_elem c of None \<Rightarrow> Inl NoSuchElementException | Some t \<Rightarrow>
      case ls_company_elem c of None \<Rightarrow> Inl NoSuchElementException | Some co \<Rightarrow>
      case ls_location_elem c of None \<Rightarrow> Inl NoSuchElementException | Some l \<Rightarrow>
      case ls_link_elem c of None \<Rightarrow> Inl NoSuchElementException | Some href \<Rightarrow>
        Inr \<lparr>ls_id = idx, ls_title = str_strip t, ls_company = str_strip co,
             ls_location = str_strip l, ls_link = href, ls_hr_email = None\<rparr>)"

fun ls_cards_loop :: "int \<Rightarrow> ls_card list \<Rightarrow> ls_job list \<Rightarrow> ls_job list" where
  "ls_cards_loop idx [] jobs = jobs"
| "ls_cards_loop idx (c # cards) jobs =
     (case ls_parse_card idx c of
        Inr job_data \<Rightarrow> ls_cards_loop (idx + 1) cards (jobs @ [job_data])
      | Inl e \<Rightarrow> ls_cards_loop (idx + 1) cards jobs)"

text \<open>
  \<^verbatim>\<open>scrape_linkedin_jobs\<close> of the module. The driver is started inside the \<^verbatim>\<open>try\<close>, and the
  handler of every exception returns the empty list.
\<close>

definition ls_scrape_linkedin_jobs ::
  "ls_card browser \<Rightarrow> string list \<Rightarrow> string \<Rightarrow> int \<Rightarrow> int option \<Rightarrow> ls_job list" where
  "ls_scrape_linkedin_jobs b skills location max_jobs experience_years =
     (case launch b of
        Some e \<Rightarrow> []
      | None \<Rightarrow>
          (case load b (ls_url skills location experience_years) of
             Inl e \<Rightarrow> []
           | Inr job_cards \<Rightarrow> ls_cards_loop 1 (slice_to max_jobs job_cards) []))"

section \<open>The application (main.py)\<close>

definition experience_level :: "int \<Rightarrow> string" where
  "experience_level experience_years =
     (if experience_years = 0 then ''Internship''
      else if experience_years \<le> 2 then ''Entry level''
      else if experience_years \<le> 5 then ''Associate''
      else ''Mid-Senior level'')"

definition encoded_query :: "string list \<Rightarrow> int \<Rightarrow> string" where
  "encoded_query skills experience_years =
     str_replace CHR '' '' ''%20''
       (str_join '' '' (take 3 skills) @ '' '' @ experience_level experience_years)"

definition encoded_location :: "string \<Rightarrow> string" where
  "encoded_location location = str_replace CHR '' '' ''%20'' location"

definition search_url :: "string list \<Rightarrow> string \<Rightarrow> int \<Rightarrow> string" where
  "search_url skills location experience_years =
     ''https://www.linkedin.com/jobs/search/?keywords='' @ encoded_query skills experience_years
       @ ''&location='' @ encoded_location location"

text \<open>
  A job card as BeautifulSoup shows it: the text of the title, subtitle and location
  elements and the anchor, each \<open>None\<close> when \<^verbatim>\<open>card.find\<close> finds nothing; for the anchor, its
  \<^verbatim>\<open>href\<close> attribute, \<open>None\<close> when the anchor has none (\<^verbatim>\<open>link_elem['href']\<close> then raises
  \<^verbatim>\<open>KeyError\<close>).
\<close>

record job_card =
  title_elem :: "string option"
  company_elem :: "string option"
  location_elem :: "string option"
  link_elem :: "string option option"

record job =
  job_title :: string
  job_company :: string
  job_location :: string
  job_link :: string
  job_experience_level :: string

text \<open>The body of the inner \<^verbatim>\<open>try\<close>: the job of a card, nothing, or the exception raised.\<close>

definition parse_card :: "string \<Rightarrow> string \<Rightarrow> job_card \<Rightarrow> error + job option" where
  "parse_card location level c =
     (case (title_elem c, company_elem c, link_elem c) of
        (Some t, Some co, Some a) \<Rightarrow>
          (case a of
             None \<Rightarrow> Inl KeyError
           | Some href \<Rightarrow>
               Inr (Some \<lparr>job_title = str_strip t, job_company = str_strip co,
                          job_location = (case location_elem c of Some l \<Rightarrow> str_strip l | None \<Rightarrow> location),
                          job_link = href, job_experience_level = level\<rparr>))
      | _ \<Rightarrow> Inr None)"

fun cards_loop :: "string \<Rightarrow> string \<Rightarrow> job_card list \<Rightarrow> job list \<Rightarrow> job list" where
  "cards_loop location level [] jobs = jobs"
| "cards_loop location level (c # cards) jobs =
     (case parse_card location level c of
        Inr (Some j) \<Rightarrow> cards_loop location level cards (jobs @ [j])
      | Inr None \<Rightarrow> cards_loop location level cards jobs
      | Inl e \<Rightarrow> cards_loop location level cards jobs)"

text \<open>
  \<^verbatim>\<open>scrape_linkedin_jobs\<close> of main.py. \<^verbatim>\<open>webdriver.Chrome(...)\<close> is called before the \<^verbatim>\<open>try\<close>,
  so its exception leaves the function (\<open>Inl\<close>); an exception inside the \<^verbatim>\<open>try\<close> is printed
  and the function returns \<^verbatim>\<open>jobs[:max_jobs]\<close>.
\<close>

definition scrape_linkedin_jobs ::
  "job_card browser \<Rightarrow> string list \<Rightarrow> string \<Rightarrow> int \<Rightarrow> int \<Rightarrow> error + job list" where
  "scrape_linkedin_jobs b skills location experience_years max_jobs =
     (case launch b of
        Some e \<Rightarrow> Inl e
      | None \<Rightarrow>
          Inr (slice_to max_jobs
            (case load b (search_url skills location experience_years) of
               Inl e \<Rightarrow> []
             | Inr job_cards \<Rightarrow>
                 cards_loop location (experience_level experience_years)
                   (slice_to (max_jobs * 2) job_cards) [])))"

text \<open>The job that the loop of main.py adds for a card, if it adds one.\<close>

definition job_of_card :: "string \<Rightarrow> string \<Rightarrow> job_card \<Rightarrow> job option" where
  "job_of_card location level c =
     (case parse_card location level c of Inr (Some j) \<Rightarrow> Some j | _ \<Rightarrow> None)"

text \<open>
  What makes a string safe inside a URL is taken from RFC 3986: each of its characters is
  an unreserved character (a letter, a digit, hyphen, full stop, underscore, tilde) or the
  per cent sign that starts an escape.
\<close>

definition url_safe_char :: "char \<Rightarrow> bool" where
  "url_safe_char c = (is_alpha c \<or> is_digit c \<or> c \<in> set ''-._~%'')"

definition url_safe :: "string \<Rightarrow> bool" where
  "url_safe s = list_all url_safe_char s"

text \<open>The character before position \<open>i\<close> of \<open>s\<close>, where \<open>prev\<close> stands before \<open>s\<close>.\<close>

definition before :: "char option \<Rightarrow> string \<Rightarrow> nat \<Rightarrow> char option" where
  "before prev s i = (if i = 0 then prev else Some (s ! (i - 1)))"

text \<open>The least number of characters that a match of a pattern has.\<close>

fun item_min :: "item \<Rightarrow> nat" where
  "item_min (Lit c) = 1"
| "item_min WordB = 0"
| "item_min (Rep cl lo hi) = lo"

definition min_len :: "item list \<Rightarrow> nat" where
  "min_len p = sum_list (map item_min p)"

text \<open>\<^verbatim>\<open>enumerate(xs, idx)\<close>: the elements of \<open>xs\<close> with their numbers, counted from \<open>idx\<close>.\<close>

fun enumerate_from :: "int \<Rightarrow> 'a list \<Rightarrow> (int \<times> 'a) list" where
  "enumerate_from idx [] = []"
| "enumerate_from idx (x # xs) = (idx, x) # enumerate_from (idx + 1) xs"

text \<open>The job that the loop of the scraper module adds for a numbered card, if it adds one.\<close>

definition ls_job_of_card :: "int \<times> ls_card \<Rightarrow> ls_job option" where
  "ls_job_of_card ic =
     (case ls_parse_card (fst ic) (snd ic) of Inr job_data \<Rightarrow> Some job_data | Inl e \<Rightarrow> None)"

section \<open>Categorization\<close>

lemma categorize_loop_filter:
  "categorize_loop g jobs a b =
     (a @ filter (\<lambda>j. truthy (g j)) jobs, b @ filter (\<lambda>j. \<not> truthy (g j)) jobs)"
  by (induction jobs arbitrary: a b) simp_all

lemma mset_filter_split:
  "mset (filter P xs) + mset (filter (\<lambda>x. \<not> P x) xs) = mset xs"
  by (induction xs) simp_all

text \<open>
  Claim C8. For every list of jobs, \<^verbatim>\<open>categorize_jobs\<close> splits it in two: the jobs with a
  contact e-mail and the others, each in the order of the input. The two lengths add up to
  the length of the input, every job of the input is in exactly one of the two lists (as
  multisets the two lists add up to the input, and no job is in both), and the three
  counts reported are the lengths of the input and of the two lists.
\<close>

theorem categorize_jobs_partition:
  "direct_contact_jobs (categorize_jobs g jobs) = filter (\<lambda>j. truthy (g j)) jobs
   \<and> standard_jobs (categorize_jobs g jobs) = filter (\<lambda>j. \<not> truthy (g j)) jobs
   \<and> length (direct_contact_jobs (categorize_jobs g jobs))
       + length (standard_jobs (categorize_jobs g jobs)) = length jobs
   \<and> mset (direct_contact_jobs (categorize_jobs g jobs))
       + mset (standard_jobs (categorize_jobs g jobs)) = mset jobs
   \<and> set (direct_contact_jobs (categorize_jobs g jobs))
       \<inter> set (standard_jobs (categorize_jobs g jobs)) = {}
   \<and> subseq (direct_contact_jobs (categorize_jobs g jobs)) jobs
   \<and> subseq (standard_jobs (categorize_jobs g jobs)) jobs
   \<and> total_jobs (categorize_jobs g jobs) = length jobs
   \<and> jobs_with_email (categorize_jobs g jobs)
       = length (direct_contact_jobs (categorize_jobs g jobs))
   \<and> jobs_without_email (categorize_jobs g jobs)
       = length (standard_jobs (categorize_jobs g jobs))"
proof -
  have d: "direct_contact_jobs (categorize_jobs g jobs) = filter (\<lambda>j. truthy (g j)) jobs"
    by (simp add: categorize_jobs_def categorize_loop_filter)
  have s: "standard_jobs (categorize_jobs g jobs) = filter (\<lambda>j. \<not> truthy (g j)) jobs"
    by (simp add: categorize_jobs_def categorize_loop_filter)
  have len: "length (filter (\<lambda>j. truthy (g j)) jobs)
      + length (filter (\<lambda>j. \<not> truthy (g j)) jobs) = length jobs"
    by (rule sum_length_filter_compl)
  have ms: "mset (filter (\<lambda>j. truthy (g j)) jobs)
      + mset (filter (\<lambda>j. \<not> truthy (g j)) jobs) = mset jobs"
    by (rule mset_filter_split)
  have disj: "set (filter (\<lambda>j. truthy (g j)) jobs)
      \<inter> set (filter (\<lambda>j. \<not> truthy (g j)) jobs) = {}"
    by auto
  have counts: "total_jobs (categorize_jobs g jobs) = length jobs
      \<and> jobs_with_email (categorize_jobs g jobs) = length (filter (\<lambda>j. truthy (g j)) jobs)
      \<and> jobs_without_email (categorize_jobs g jobs)
          = length (filter (\<lambda>j. \<not> truthy (g j)) jobs)"
    by (simp add: categorize_jobs_def categorize_loop_filter)
  show ?thesis
    unfolding d s using len ms disj counts by simp
qed

section \<open>Experience levels\<close>

text \<open>
  The filter codes of the scraper module change at the same years as the levels of
  main.py: after 0, after 2 and after 5.
\<close>

lemma experience_filter_codes:
  "experience_filter (Some y) =
     (if y = 0 then ''&f_E=1'' else if y \<le> 2 then ''&f_E=1,2''
      else if y \<le> 5 then ''&f_E=3,4'' else ''&f_E=5,6'')"
  by (simp add: experience_filter_def)

lemma get_experience_level_labels:
  "get_experience_level (Some 0) = ''Fresher/Internship (0 years)''
   \<and> get_experience_level (Some 1) = ''Entry Level (0-2 years)''
   \<and> get_experience_level (Some 2) = ''Entry Level (0-2 years)''
   \<and> get_experience_level (Some 3) = ''Mid Level (2-5 years)''
   \<and> get_experience_level (Some 4) = ''Mid Level (2-5 years)''
   \<and> get_experience_level (Some 5) = ''Mid Level (2-5 years)''
   \<and> get_experience_level (Some (6 + int n)) = ''Senior Level (5+ years)''
   \<and> get_experience_level None = ''All Levels''"
  by (simp add: get_experience_level_def)



section \<open>Text of a document\<close>

lemma pages_loop_Some:
  "pages_loop (map Some ts) acc = Inr (acc @ concat ts)"
  by (induction ts arbitrary: acc) simp_all

lemma resume_text_loop_concat:
  "resume_text_loop ts acc = acc @ concat ts"
  by (induction ts arbitrary: acc) simp_all

text \<open>A page for which the library returns \<^verbatim>\<open>None\<close> stops \<^verbatim>\<open>extract_text_from_pdf\<close>.\<close>

lemma pages_loop_None:
  "None \<in> set pages \<Longrightarrow> pages_loop pages acc = Inl TypeError"
proof (induction pages arbitrary: acc)
  case Nil
  then show ?case by simp
next
  case (Cons p pages)
  then show ?case by (cases p) auto
qed

text \<open>
  Claim C3. For a document whose pages have the texts \<open>ts\<close>, in this order, both text
  extractions return the concatenation of \<open>ts\<close> with nothing between the pages, and no
  error; a page whose text is the empty string adds nothing to the result.
\<close>

theorem extract_text_concat:
  "extract_text_from_pdf (map Some ts) = Inr (concat ts)
   \<and> upload_resume_text ts = concat ts
   \<and> extract_text_from_pdf (map Some (ps @ [[]] @ qs)) = Inr (concat ps @ concat qs)
   \<and> upload_resume_text (ps @ [[]] @ qs) = concat ps @ concat qs"
  using pages_loop_Some [of ts "[]"] pages_loop_Some [of "ps @ [[]] @ qs" "[]"]
  by (simp add: extract_text_from_pdf_def upload_resume_text_def resume_text_loop_concat)

section \<open>Skills\<close>

lemma starts_with_prefix: "starts_with x s \<longleftrightarrow> prefix x s"
  by (induction x s rule: starts_with.induct) auto

lemma contains_sublist: "contains x s \<longleftrightarrow> sublist x s"
  by (induction s) (auto simp: starts_with_prefix sublist_Cons_right)

lemma contains_trans: "contains a b \<Longrightarrow> contains b s \<Longrightarrow> contains a s"
  unfolding contains_sublist by (rule sublist_order.order.trans)

lemma skills_loop_set:
  "set (skills_loop ks text_lower found) =
     set found \<union> str_title ` {k \<in> set ks. contains k text_lower}"
  by (induction ks arbitrary: found) auto

lemma extract_skills_image:
  "extract_skills text = str_title ` {k \<in> set skill_keywords. contains k (str_lower text)}"
  by (simp add: extract_skills_def skills_loop_set)

lemma javascript_keyword: "''javascript'' \<in> set skill_keywords"
  by (simp add: skill_keywords_def)

lemma java_keyword: "''java'' \<in> set skill_keywords"
  by (simp add: skill_keywords_def)

lemma java_in_javascript: "contains ''java'' ''javascript''"
  by simp

lemma title_javascript: "str_title ''javascript'' = ''Javascript''"
  by code_simp

lemma title_java: "str_title ''java'' = ''Java''"
  by code_simp

text \<open>
  Claim C10. Whenever the text, put in lower case, contains \<^verbatim>\<open>javascript\<close>, the skills
  reported include both \<^verbatim>\<open>Javascript\<close> and \<^verbatim>\<open>Java\<close>. More generally, whenever a term \<open>b\<close> of
  the vocabulary occurs in the lower-cased text, every term \<open>a\<close> of the vocabulary that is
  a substring of \<open>b\<close> is reported together with \<open>b\<close>; and every term of the vocabulary
  that occurs in the lower-cased text, even inside a longer word, is reported.
\<close>

theorem javascript_reports_java:
  "(contains ''javascript'' (str_lower text) \<longrightarrow>
      ''Javascript'' \<in> extract_skills text \<and> ''Java'' \<in> extract_skills text)
   \<and> (a \<in> set skill_keywords \<and> b \<in> set skill_keywords
        \<and> contains a b \<and> contains b (str_lower text) \<longrightarrow>
      str_title a \<in> extract_skills text \<and> str_title b \<in> extract_skills text)
   \<and> (k \<in> set skill_keywords \<and> contains k (str_lower text) \<longrightarrow>
      str_title k \<in> extract_skills text)"
proof -
  have one: "str_title k \<in> extract_skills text"
    if "k \<in> set skill_keywords" "contains k (str_lower text)" for k
    using that by (auto simp: extract_skills_image)
  have two: "str_title a \<in> extract_skills text \<and> str_title b \<in> extract_skills text"
    if "a \<in> set skill_keywords" "b \<in> set skill_keywords" "contains a b"
       "contains b (str_lower text)" for a b
    using that one contains_trans by blast
  have js: "''Javascript'' \<in> extract_skills text \<and> ''Java'' \<in> extract_skills text"
    if "contains ''javascript'' (str_lower text)"
    using two [OF java_keyword javascript_keyword java_in_javascript that]
    by (simp add: title_javascript title_java)
  show ?thesis using one two js by blast
qed

theorem javascript_reports_java_witness:
  "contains ''javascript'' (str_lower ''I know JavaScript'')
   \<and> ''Javascript'' \<in> extract_skills ''I know JavaScript''
   \<and> ''Java'' \<in> extract_skills ''I know JavaScript''
   \<and> ''ai'' \<in> set skill_keywords \<and> ''tailwind'' \<in> set skill_keywords
   \<and> contains ''ai'' ''tailwind'' \<and> contains ''tailwind'' (str_lower ''Tailwind CSS'')
   \<and> str_title ''ai'' \<in> extract_skills ''Tailwind CSS''
   \<and> str_title ''tailwind'' \<in> extract_skills ''Tailwind CSS''
   \<and> contains ''ai'' (str_lower ''we maintain it'')
   \<and> str_title ''ai'' \<in> extract_skills ''we maintain it''"
proof -
  have h1: "contains ''javascript'' (str_lower ''I know JavaScript'')" by code_simp
  have h2: "''ai'' \<in> set skill_keywords \<and> ''tailwind'' \<in> set skill_keywords
      \<and> contains ''ai'' ''tailwind'' \<and> contains ''tailwind'' (str_lower ''Tailwind CSS'')"
    by code_simp
  have h3: "''ai'' \<in> set skill_keywords \<and> contains ''ai'' (str_lower ''we maintain it'')"
    by code_simp
  show ?thesis
    using h1 h2 h3
      javascript_reports_java [of "''I know JavaScript''" "''ai''" "''tailwind''" "''ai''"]
      javascript_reports_java [of "''Tailwind CSS''" "''ai''" "''tailwind''" "''ai''"]
      javascript_reports_java [of "''we maintain it''" "''ai''" "''tailwind''" "''ai''"]
    by blast
qed

section \<open>Matches of a pattern\<close>

text \<open>A match is never longer than the text it is found in.\<close>

lemma match_here_le:
  "match_here p prev s = Some n \<Longrightarrow> n \<le> length s"
  "rep_here cl lo hi p prev s k = Some n \<Longrightarrow> n \<le> length s"
  by (induction p prev s and cl lo hi p prev s k arbitrary: n and n rule: match_here_rep_here.induct)
     (auto split: if_splits option.splits)

lemma findall_from_sublist:
  "m \<in> set (findall_from p prev s) \<Longrightarrow> sublist m s"
proof (induction p prev s rule: findall_from.induct)
  case (1 p prev)
  then show ?case by (auto split: option.splits)
next
  case (2 p prev c s)
  show ?case
  proof (cases "match_here p prev (c # s)")
    case None
    with 2 have "sublist m s" by simp
    then show ?thesis by (simp add: sublist_Cons_right)
  next
    case (Some k)
    show ?thesis
    proof (cases k)
      case 0
      with 2 Some have "m = [] \<or> sublist m s" by auto
      then show ?thesis by (auto simp: sublist_Cons_right)
    next
      case (Suc n)
      with 2 Some have "m = take (Suc n) (c # s) \<or> sublist m (drop n s)" by auto
      then show ?thesis
      proof
        assume "m = take (Suc n) (c # s)"
        then have "prefix m (c # s)" by (simp add: take_is_prefix)
        then show ?thesis by (rule prefix_imp_sublist)
      next
        assume "sublist m (drop n s)"
        moreover have "sublist (drop n s) (c # s)"
          by (metis append_take_drop_id sublist_Cons_right sublist_append_leftI)
        ultimately show ?thesis by (rule sublist_order.order.trans)
      qed
    qed
  qed
qed

lemma findall_sublist: "list_all (\<lambda>m. sublist m s) (findall p s)"
  by (simp add: findall_def list_all_iff findall_from_sublist)

text \<open>
  The first element of \<^verbatim>\<open>re.findall\<close> is the match at the leftmost position of the text
  where the pattern matches, and the list is empty exactly when the pattern matches at
  no position.
\<close>

lemma before_Cons: "before prev (c # s) (Suc j) = before (Some c) s j"
  by (cases j) (simp_all add: before_def)

lemma findall_from_first:
  "findall_from p prev s = m # ms \<Longrightarrow>
   \<exists>i n. i \<le> length s
     \<and> (\<forall>j<i. match_here p (before prev s j) (drop j s) = None)
     \<and> match_here p (before prev s i) (drop i s) = Some n
     \<and> m = take n (drop i s)"
proof (induction s arbitrary: prev)
  case Nil
  then obtain n where "match_here p prev [] = Some n" "m = []"
    by (auto split: option.splits)
  then show ?case by (auto simp: before_def)
next
  case (Cons c s)
  show ?case
  proof (cases "match_here p prev (c # s)")
    case None
    with Cons.prems have "findall_from p (Some c) s = m # ms" by simp
    from Cons.IH [OF this] obtain i n where i:
      "i \<le> length s"
      "\<forall>j<i. match_here p (before (Some c) s j) (drop j s) = None"
      "match_here p (before (Some c) s i) (drop i s) = Some n"
      "m = take n (drop i s)" by blast
    have "\<forall>j<Suc i. match_here p (before prev (c # s) j) (drop j (c # s)) = None"
    proof (intro allI impI)
      fix j assume "j < Suc i"
      then show "match_here p (before prev (c # s) j) (drop j (c # s)) = None"
        using None i(2) by (cases j) (auto simp: before_Cons, simp add: before_def)
    qed
    then show ?thesis
      using i by (intro exI [of _ "Suc i"] exI [of _ n]) (simp add: before_Cons)
  next
    case (Some k)
    then have "m = take k (c # s)"
      using Cons.prems by (cases k) auto
    then show ?thesis
      using Some by (intro exI [of _ 0] exI [of _ k]) (simp add: before_def)
  qed
qed

lemma findall_from_Nil_iff:
  "findall_from p prev s = [] \<longleftrightarrow>
     (\<forall>i\<le>length s. match_here p (before prev s i) (drop i s) = None)"
proof (induction s arbitrary: prev)
  case Nil
  then show ?case by (auto simp: before_def split: option.splits)
next
  case (Cons c s)
  show ?case
  proof (cases "match_here p prev (c # s)")
    case None
    have "(\<forall>i\<le>length (c # s). match_here p (before prev (c # s) i) (drop i (c # s)) = None)
        \<longleftrightarrow> (\<forall>i\<le>length s. match_here p (before (Some c) s i) (drop i s) = None)"
    proof
      assume a: "\<forall>i\<le>length (c # s). match_here p (before prev (c # s) i) (drop i (c # s)) = None"
      show "\<forall>i\<le>length s. match_here p (before (Some c) s i) (drop i s) = None"
      proof (intro allI impI)
        fix i assume "i \<le> length s"
        then show "match_here p (before (Some c) s i) (drop i s) = None"
          using a [rule_format, of "Suc i"] by (simp add: before_Cons)
      qed
    next
      assume a: "\<forall>i\<le>length s. match_here p (before (Some c) s i) (drop i s) = None"
      show "\<forall>i\<le>length (c # s). match_here p (before prev (c # s) i) (drop i (c # s)) = None"
      proof (intro allI impI)
        fix i assume "i \<le> length (c # s)"
        then show "match_here p (before prev (c # s) i) (drop i (c # s)) = None"
          using a None by (cases i) (auto simp: before_Cons, simp add: before_def)
      qed
    qed
    with None Cons.IH [of "Some c"] show ?thesis by simp
  next
    case (Some k)
    then have "findall_from p prev (c # s) \<noteq> []" by (cases k) auto
    moreover have "\<not> (\<forall>i\<le>length (c # s). match_here p (before prev (c # s) i) (drop i (c # s)) = None)"
      using Some by (auto simp: before_def intro!: exI [of _ 0])
    ultimately show ?thesis by simp
  qed
qed

text \<open>What a repetition of exactly \<open>n\<close> characters and an optional character match.\<close>

lemma map_option_add_0: "map_option ((+) (0::nat)) x = x"
  by (cases x) simp_all

lemma rep_here_exact:
  "k \<le> n \<Longrightarrow> rep_here cl n (Some n) p prev s k =
     (if n - k \<le> length s \<and> list_all (in_class cl) (take (n - k) s)
      then map_option ((+) (n - k))
             (match_here p (if n - k = 0 then prev else Some (s ! (n - k - 1))) (drop (n - k) s))
      else None)"
proof (induction s arbitrary: k prev)
  case Nil
  then show ?case by (auto simp: map_option_add_0 option.map_ident)
next
  case (Cons d s)
  show ?case
  proof (cases "k = n")
    case True
    then show ?thesis by (simp add: under_def map_option_add_0 option.map_ident)
  next
    case False
    with Cons.prems have lt: "k < n" by simp
    then obtain j where j: "n - k = Suc j" by (metis Suc_diff_Suc)
    then have j': "n - Suc k = j" by simp
    show ?thesis
    proof (cases "in_class cl d")
      case False
      then show ?thesis using lt j by (simp add: under_def)
    next
      case True
      have ih: "rep_here cl n (Some n) p (Some d) s (Suc k) =
         (if j \<le> length s \<and> list_all (in_class cl) (take j s)
          then map_option ((+) j) (match_here p (if j = 0 then Some d else Some (s ! (j - 1))) (drop j s))
          else None)"
        using Cons.IH [of "Suc k" "Some d"] lt j' by simp
      show ?thesis
        using True lt j ih
        by (cases j) (auto simp: under_def option.map_comp comp_def split: option.splits)
    qed
  qed
qed

lemma match_here_Lit:
  "match_here (Lit c # p) prev s =
     (case s of [] \<Rightarrow> None
      | d # t \<Rightarrow> if d = c then map_option Suc (match_here p (Some d) t) else None)"
  by (cases s) simp_all

lemma match_here_exact:
  "match_here (Rep cl n (Some n) # p) prev s =
     (if n \<le> length s \<and> list_all (in_class cl) (take n s)
      then map_option ((+) n) (match_here p (if n = 0 then prev else Some (s ! (n - 1))) (drop n s))
      else None)"
  using rep_here_exact [of 0 n cl p prev s] by simp

lemma rep_here_optional_done:
  "rep_here cl 0 (Some (Suc 0)) p prev s (Suc 0) = match_here p prev s"
  by (cases s) (simp_all add: under_def)

lemma match_here_optional:
  "match_here (Rep cl 0 (Some (Suc 0)) # p) prev s =
     (case s of [] \<Rightarrow> match_here p prev []
      | d # t \<Rightarrow>
          if in_class cl d
          then (case match_here p (Some d) t of
                  Some m \<Rightarrow> Some (Suc m)
                | None \<Rightarrow> match_here p prev (d # t))
          else match_here p prev (d # t))"
  by (cases s) (simp_all add: under_def rep_here_optional_done)

text \<open>A match has at least the characters its pattern asks for; so no pattern of the source matches the empty string.\<close>

lemma match_here_min_len:
  "match_here p prev s = Some n \<Longrightarrow> min_len p \<le> n"
  "rep_here cl lo hi p prev s k = Some n \<Longrightarrow> min_len p + (lo - k) \<le> n"
  by (induction p prev s and cl lo hi p prev s k arbitrary: n and n rule: match_here_rep_here.induct)
     (auto simp: min_len_def split: if_splits option.splits)

lemma no_empty_match:
  "match_here email_pattern prev s \<noteq> Some 0"
  "match_here phone_sep prev s \<noteq> Some 0"
  "match_here phone_plain prev s \<noteq> Some 0"
  "match_here phone_ten prev s \<noteq> Some 0"
  "match_here phone_five_five prev s \<noteq> Some 0"
  using match_here_min_len(1) [of _ prev s 0]
  by (fastforce simp: min_len_def email_pattern_def phone_sep_def phone_plain_def phone_ten_def
        phone_five_five_def)+

section \<open>Telephone numbers\<close>

text \<open>
  The four patterns, read at one position of the text: \<^verbatim>\<open>+91\<close>, an optional hyphen or
  white space and ten digits; \<^verbatim>\<open>+91\<close> and ten digits; ten digits; five digits, an optional
  white space and five digits.
\<close>

lemma in_class_Digit: "in_class [Digit] = is_digit"
  by (auto simp: in_class_def fun_eq_iff)

lemma in_class_Space: "in_class [Space] = is_space"
  by (auto simp: in_class_def fun_eq_iff)

lemma in_class_sep: "in_class [One CHR ''-'', Space] d \<longleftrightarrow> d = CHR ''-'' \<or> is_space d"
  by (auto simp: in_class_def)

lemma not_digit_sep: "d = CHR ''-'' \<or> is_space d \<Longrightarrow> \<not> is_digit d"
  by (auto simp: is_digit_def is_space_def Let_def less_eq_char_def)

lemma match_phone_ten:
  "match_here phone_ten prev s =
     (if 10 \<le> length s \<and> list_all is_digit (take 10 s) then Some 10 else None)"
  by (simp add: phone_ten_def match_here_exact in_class_Digit del: match_here.simps(5))

lemma match_phone_plain:
  "match_here phone_plain prev s =
     (if starts_with ''+91'' s \<and> 10 \<le> length (drop 3 s) \<and> list_all is_digit (take 10 (drop 3 s))
      then Some 13 else None)"
  by (auto simp add: phone_plain_def match_here_Lit match_here_exact in_class_Digit
        simp del: match_here.simps(2-5) split: list.splits)

lemma match_phone_sep:
  "match_here phone_sep prev s =
     (if starts_with ''+91'' s then
        (case drop 3 s of
           [] \<Rightarrow> None
         | d # t \<Rightarrow>
             if d = CHR ''-'' \<or> is_space d
             then (if 10 \<le> length t \<and> list_all is_digit (take 10 t) then Some 14 else None)
             else (if 10 \<le> length (d # t) \<and> list_all is_digit (take 10 (d # t))
                   then Some 13 else None))
      else None)"
  by (auto simp add: phone_sep_def match_here_Lit match_here_optional match_here_exact
        in_class_Digit in_class_sep not_digit_sep
        simp del: match_here.simps(2-5) split: list.splits)

lemma match_phone_five_five:
  "match_here phone_five_five prev s =
     (if 5 \<le> length s \<and> list_all is_digit (take 5 s) then
        (case drop 5 s of
           [] \<Rightarrow> None
         | d # t \<Rightarrow>
             if is_space d
             then (if 5 \<le> length t \<and> list_all is_digit (take 5 t) then Some 11 else None)
             else (if 5 \<le> length (d # t) \<and> list_all is_digit (take 5 (d # t))
                   then Some 10 else None))
      else None)"
  by (auto simp add: phone_five_five_def match_here_optional match_here_exact
        in_class_Digit in_class_Space not_digit_sep
        simp del: match_here.simps(2-5) split: list.splits)

lemma str_replace_empty: "str_replace c [] s = filter (\<lambda>d. d \<noteq> c) s"
  by (induction s) (simp_all add: str_replace_def)

lemma clean_phone_filter:
  "clean_phone m = filter (\<lambda>c. c \<noteq> CHR '' '' \<and> c \<noteq> CHR ''-'') m"
  by (simp add: clean_phone_def str_replace_empty conj_commute)

lemma phone_loop_None:
  "phone_loop ps s = None \<longleftrightarrow> list_all (\<lambda>p. findall p s = []) ps"
  by (induction ps) (auto split: list.splits)

lemma phone_loop_first:
  "list_all (\<lambda>p. findall p s = []) qs \<Longrightarrow> findall p s = m # ms \<Longrightarrow>
   phone_loop (qs @ p # rs) s = Some (clean_phone m)"
  by (induction qs) auto

text \<open>
  Claim C9. \<^verbatim>\<open>extract_phone\<close> tries its four patterns in the order of the source (the country
  code and ten digits with an optional separator, the same without separator, ten digits,
  five digits and five digits with an optional blank): the result is the first match of
  the first pattern that has a match anywhere in the text, with its blanks and hyphens
  removed, and nothing when no pattern has a match. So a pattern earlier in the list wins
  over a later one whose match stands earlier in the text. (What each pattern matches at
  a position is stated by the lemmas \<open>match_phone_sep\<close>, \<open>match_phone_plain\<close>,
  \<open>match_phone_ten\<close> and \<open>match_phone_five_five\<close>; that the first element of
  \<open>findall\<close> is the leftmost match, by \<open>findall_from_first\<close>.)
\<close>

theorem extract_phone_first_pattern:
  "extract_phone s =
     (case findall phone_sep s of m # _ \<Rightarrow> Some (clean_phone m) | [] \<Rightarrow>
     (case findall phone_plain s of m # _ \<Rightarrow> Some (clean_phone m) | [] \<Rightarrow>
     (case findall phone_ten s of m # _ \<Rightarrow> Some (clean_phone m) | [] \<Rightarrow>
     (case findall phone_five_five s of m # _ \<Rightarrow> Some (clean_phone m) | [] \<Rightarrow> None))))
   \<and> clean_phone m = filter (\<lambda>c. c \<noteq> CHR '' '' \<and> c \<noteq> CHR ''-'') m
   \<and> (extract_phone s = Some ph \<longrightarrow> CHR '' '' \<notin> set ph \<and> CHR ''-'' \<notin> set ph)
   \<and> extract_phone ''+91-9876543210'' = Some ''+919876543210''
   \<and> extract_phone ''9876543210'' = Some ''9876543210''
   \<and> extract_phone ''9876543210 or +91 1234567890'' = Some ''+911234567890''
   \<and> extract_phone ''98765 43210'' = Some ''9876543210''
   \<and> extract_phone ''no number here'' = None"
proof -
  have order: "extract_phone s =
     (case findall phone_sep s of m # _ \<Rightarrow> Some (clean_phone m) | [] \<Rightarrow>
     (case findall phone_plain s of m # _ \<Rightarrow> Some (clean_phone m) | [] \<Rightarrow>
     (case findall phone_ten s of m # _ \<Rightarrow> Some (clean_phone m) | [] \<Rightarrow>
     (case findall phone_five_five s of m # _ \<Rightarrow> Some (clean_phone m) | [] \<Rightarrow> None))))"
    by (simp add: extract_phone_def phone_patterns_def split: list.splits)
  have clean: "CHR '' '' \<notin> set ph \<and> CHR ''-'' \<notin> set ph" if "extract_phone s = Some ph"
  proof -
    from that order obtain m where "ph = clean_phone m"
      by (auto split: list.splits)
    then show ?thesis by (simp add: clean_phone_filter)
  qed
  have e1: "extract_phone ''+91-9876543210'' = Some ''+919876543210''" by code_simp
  have e2: "extract_phone ''9876543210'' = Some ''9876543210''" by code_simp
  have e3: "extract_phone ''9876543210 or +91 1234567890'' = Some ''+911234567890''"
    by code_simp
  have e4: "extract_phone ''98765 43210'' = Some ''9876543210''" by code_simp
  have e5: "extract_phone ''no number here'' = None" by code_simp
  show ?thesis
    using order clean clean_phone_filter e1 e2 e3 e4 e5 by blast
qed

theorem extract_phone_first_pattern_witness:
  "extract_phone ''+91-9876543210'' = Some ''+919876543210''
   \<and> CHR '' '' \<notin> set ''+919876543210'' \<and> CHR ''-'' \<notin> set ''+919876543210''"
  using extract_phone_first_pattern [of "''+91-9876543210''" "[]" "''+919876543210''"]
  by blast

section \<open>E-mail addresses\<close>

lemma generic_email_words:
  "generic_email e \<longleftrightarrow>
     contains ''noreply'' (str_lower e) \<or> contains ''no-reply'' (str_lower e)
       \<or> contains ''donotreply'' (str_lower e)"
  by (simp add: generic_email_def)

lemma findall_email_Nil: "findall email_pattern [] = []"
  by code_simp

text \<open>
  Claim C2 fails for \<^verbatim>\<open>extract_email\<close>: on the text of the claim it returns the first
  address, which is the one the claim says is discarded.
\<close>

theorem extract_email_keeps_noreply:
  "extract_email ''contact: noreply@corp.com, jane@corp.com'' = Some ''noreply@corp.com''
   \<and> extract_email ''contact: noreply@corp.com, jane@corp.com'' \<noteq> Some ''jane@corp.com''"
proof -
  have "extract_email ''contact: noreply@corp.com, jane@corp.com'' = Some ''noreply@corp.com''"
    by code_simp
  then show ?thesis by simp
qed

text \<open>
  Claim C2, amended. \<^verbatim>\<open>extract_email\<close> returns the first match of the address pattern in
  the text, whatever words it contains, and nothing when the pattern has no match. The
  list of words is applied by \<^verbatim>\<open>extract_email_from_text\<close> of the scraper module, which
  returns all the matches, in the order of the text, that contain none of \<^verbatim>\<open>noreply\<close>,
  \<^verbatim>\<open>no-reply\<close> and \<^verbatim>\<open>donotreply\<close> once put in lower case. Every match is a substring of
  the text. On the text of the claim the first function returns \<^verbatim>\<open>noreply@corp.com\<close> and
  the second the list of \<^verbatim>\<open>jane@corp.com\<close> alone.
\<close>

theorem extract_email_first_match:
  "(extract_email s = None \<longleftrightarrow> findall email_pattern s = [])
   \<and> (findall email_pattern s = e # es \<longrightarrow> extract_email s = Some e)
   \<and> extract_email_from_text s =
       filter (\<lambda>e. \<not> (contains ''noreply'' (str_lower e) \<or> contains ''no-reply'' (str_lower e)
                      \<or> contains ''donotreply'' (str_lower e)))
         (findall email_pattern s)
   \<and> list_all (\<lambda>m. sublist m s) (findall email_pattern s)
   \<and> extract_email ''contact: noreply@corp.com, jane@corp.com'' = Some ''noreply@corp.com''
   \<and> extract_email_from_text ''contact: noreply@corp.com, jane@corp.com'' = [''jane@corp.com'']
   \<and> extract_email_from_text ''NoReply@corp.com Do-Not-Reply@corp.com x@No-Reply.org'' =
       [''Do-Not-Reply@corp.com'']"
proof -
  have a: "extract_email s = None \<longleftrightarrow> findall email_pattern s = []"
    by (simp add: extract_email_def split: list.splits)
  have b: "extract_email s = Some e" if "findall email_pattern s = e # es"
    using that by (simp add: extract_email_def)
  have c: "extract_email_from_text s =
       filter (\<lambda>e. \<not> (contains ''noreply'' (str_lower e) \<or> contains ''no-reply'' (str_lower e)
                      \<or> contains ''donotreply'' (str_lower e)))
         (findall email_pattern s)"
    using findall_email_Nil
    by (simp add: extract_email_from_text_def generic_email_words)
  have d: "extract_email ''contact: noreply@corp.com, jane@corp.com'' = Some ''noreply@corp.com''"
    by code_simp
  have e: "extract_email_from_text ''contact: noreply@corp.com, jane@corp.com'' = [''jane@corp.com'']"
    by code_simp
  have f: "extract_email_from_text ''NoReply@corp.com Do-Not-Reply@corp.com x@No-Reply.org'' =
       [''Do-Not-Reply@corp.com'']"
    by code_simp
  show ?thesis
    using a b c d e f findall_sublist [of s email_pattern] by blast
qed

theorem extract_email_first_match_witness:
  "findall email_pattern ''contact: noreply@corp.com, jane@corp.com''
     = [''noreply@corp.com'', ''jane@corp.com'']
   \<and> extract_email ''contact: noreply@corp.com, jane@corp.com'' = Some ''noreply@corp.com''"
proof -
  have h: "findall email_pattern ''contact: noreply@corp.com, jane@corp.com''
     = ''noreply@corp.com'' # [''jane@corp.com'']"
    by code_simp
  show ?thesis
    using h extract_email_first_match
      [of "''contact: noreply@corp.com, jane@corp.com''" "''noreply@corp.com''" "[''jane@corp.com'']"]
    by blast
qed

section \<open>Job cards\<close>

lemma slice_to_nonneg: "0 \<le> k \<Longrightarrow> slice_to k xs = take (nat k) xs"
  by (simp add: slice_to_def)

lemma slice_to_all: "int (length xs) \<le> k \<Longrightarrow> slice_to k xs = xs"
  by (simp add: slice_to_def)

lemma cards_loop_map_filter:
  "cards_loop location level cards jobs
     = jobs @ List.map_filter (job_of_card location level) cards"
  by (induction cards arbitrary: jobs)
     (auto simp: job_of_card_def map_filter_simps split: sum.splits option.splits)

lemma map_filter_append:
  "List.map_filter f (xs @ ys) = List.map_filter f xs @ List.map_filter f ys"
  by (simp add: List.map_filter_def)

lemma map_filter_take_prefix:
  "prefix (List.map_filter f (take n xs)) (List.map_filter f xs)"
proof -
  have "List.map_filter f xs
      = List.map_filter f (take n xs) @ List.map_filter f (drop n xs)"
    by (simp add: map_filter_append [symmetric])
  then show ?thesis by (metis prefixI)
qed

lemma length_map_filter_le: "length (List.map_filter f xs) \<le> length xs"
  by (simp add: List.map_filter_def)

lemma map_filter_all:
  "list_all (\<lambda>x. f x \<noteq> None) xs \<Longrightarrow> length (List.map_filter f xs) = length xs"
  by (induction xs) (auto simp: map_filter_simps)

lemma job_of_card_None_iff:
  "job_of_card location level c = None \<longleftrightarrow>
     title_elem c = None \<or> company_elem c = None \<or> link_elem c = None \<or> link_elem c = Some None"
  by (auto simp: job_of_card_def parse_card_def split: option.splits)

lemma job_of_card_Some:
  "title_elem c = Some t \<Longrightarrow> company_elem c = Some co \<Longrightarrow> link_elem c = Some (Some href) \<Longrightarrow>
   job_of_card location level c =
     Some \<lparr>job_title = str_strip t, job_company = str_strip co,
           job_location = (case location_elem c of Some l \<Rightarrow> str_strip l | None \<Rightarrow> location),
           job_link = href, job_experience_level = level\<rparr>"
  by (simp add: job_of_card_def parse_card_def)

lemma scrape_linkedin_jobs_cards:
  assumes "launch b = None"
    and "load b (search_url skills location years) = Inr cards"
    and "0 \<le> max_jobs"
  shows "scrape_linkedin_jobs b skills location years max_jobs =
     Inr (take (nat max_jobs)
       (List.map_filter (job_of_card location (experience_level years))
          (take (2 * nat max_jobs) cards)))"
proof -
  have "nat (max_jobs * 2) = 2 * nat max_jobs"
    using assms(3) by (simp add: nat_mult_distrib)
  then show ?thesis
    using assms
    by (simp add: scrape_linkedin_jobs_def slice_to_nonneg cards_loop_map_filter)
qed

text \<open>
  On main.py the skipping of claim C4 holds: when the page has no more cards than
  \<^verbatim>\<open>max_jobs\<close>, the result is the list of the jobs of the cards that have a title, a
  company and a link, in the order of the page, and a card without a location element
  gets the location that was asked for.
\<close>

lemma scrape_skips_malformed_cards:
  assumes "launch b = None"
    and "load b (search_url skills location years) = Inr cards"
    and "int (length cards) \<le> max_jobs"
  shows "scrape_linkedin_jobs b skills location years max_jobs =
     Inr (List.map_filter (job_of_card location (experience_level years)) cards)"
proof -
  have nonneg: "0 \<le> max_jobs" using assms(3) by linarith
  have a: "take (2 * nat max_jobs) cards = cards" using assms(3) by simp
  have "length (List.map_filter (job_of_card location (experience_level years)) cards)
      \<le> nat max_jobs"
    using length_map_filter_le [of "job_of_card location (experience_level years)" cards] assms(3)
    by linarith
  then show ?thesis
    using scrape_linkedin_jobs_cards [OF assms(1,2) nonneg] a by simp
qed

lemma skipped_card_leaves_the_rest:
  "job_of_card location level c = None \<Longrightarrow>
   List.map_filter (job_of_card location level) (xs @ [c] @ ys)
     = List.map_filter (job_of_card location level) xs
       @ List.map_filter (job_of_card location level) ys"
  by (simp add: map_filter_append map_filter_simps)

text \<open>
  Ten cards of which the fourth has no title: main.py returns the nine others, in the
  order of the page.
\<close>

lemma ten_cards_fourth_without_title:
  "scrape_linkedin_jobs
     \<lparr>launch = None,
      load = (\<lambda>url. Inr (map (\<lambda>t. \<lparr>title_elem = (if t = CHR ''d'' then None else Some [t]),
                  company_elem = Some ''Acme'', location_elem = Some ''Pune'',
                  link_elem = Some (Some ''https://example.com/job'')\<rparr>)
                ''abcdefghij''))\<rparr>
     [''Python''] ''India'' 0 10
   = Inr (map (\<lambda>t. \<lparr>job_title = [t], job_company = ''Acme'', job_location = ''Pune'',
                  job_link = ''https://example.com/job'', job_experience_level = ''Internship''\<rparr>)
           ''abcefghij'')"
  by code_simp

lemma ls_cards_loop_length:
  "length (ls_cards_loop idx cards jobs) \<le> length jobs + length cards"
proof (induction cards arbitrary: idx jobs)
  case Nil
  then show ?case by simp
next
  case (Cons c cards)
  show ?case
  proof (cases "ls_parse_card idx c")
    case (Inl e)
    then show ?thesis using Cons [of "idx + 1" jobs] by simp
  next
    case (Inr j)
    then show ?thesis using Cons [of "idx + 1" "jobs @ [j]"] by simp
  qed
qed

lemma ls_scrape_length:
  assumes "0 \<le> max_jobs"
  shows "length (ls_scrape_linkedin_jobs b skills location max_jobs years) \<le> nat max_jobs"
proof (cases "launch b")
  case (Some e)
  then show ?thesis by (simp add: ls_scrape_linkedin_jobs_def)
next
  case None
  show ?thesis
  proof (cases "load b (ls_url skills location years)")
    case (Inl e)
    with None show ?thesis by (simp add: ls_scrape_linkedin_jobs_def)
  next
    case (Inr cards)
    have "length (ls_cards_loop 1 (take (nat max_jobs) cards) []) \<le> nat max_jobs"
      using ls_cards_loop_length [of 1 "take (nat max_jobs) cards" "[]"] by simp
    with None Inr assms show ?thesis
      by (simp add: ls_scrape_linkedin_jobs_def slice_to_nonneg)
  qed
qed

lemma ls_cards_loop_map_filter:
  "ls_cards_loop idx cards jobs
     = jobs @ List.map_filter ls_job_of_card (enumerate_from idx cards)"
  by (induction cards arbitrary: idx jobs)
     (auto simp: ls_job_of_card_def map_filter_simps split: sum.splits)

lemma length_enumerate_from: "length (enumerate_from idx xs) = length xs"
  by (induction xs arbitrary: idx) simp_all

lemma enumerate_from_take:
  "enumerate_from idx (take n xs) = take n (enumerate_from idx xs)"
proof (induction xs arbitrary: idx n)
  case Nil
  then show ?case by simp
next
  case (Cons x xs)
  then show ?case by (cases n) simp_all
qed

lemma ls_scrape_cards:
  assumes "launch b = None"
    and "load b (ls_url skills location years) = Inr cards"
    and "0 \<le> max_jobs"
  shows "ls_scrape_linkedin_jobs b skills location max_jobs years
     = List.map_filter ls_job_of_card (enumerate_from 1 (take (nat max_jobs) cards))"
  using assms
  by (simp add: ls_scrape_linkedin_jobs_def slice_to_nonneg ls_cards_loop_map_filter)

lemma take_map_filter_window:
  assumes "m \<le> length (List.map_filter f (take n xs))"
  shows "take m (List.map_filter f (take n xs)) = take m (List.map_filter f xs)"
proof -
  have "List.map_filter f xs
      = List.map_filter f (take n xs) @ List.map_filter f (drop n xs)"
    by (simp add: map_filter_append [symmetric])
  then show ?thesis using assms by simp
qed

text \<open>
  Claim C5 fails for a page whose malformed cards come first. With the cap 5, main.py
  reads the first ten cards only: on a page of ten cards without title followed by
  twenty valid cards it returns no job. The scraper module reads the first five cards
  only: on a page of one card without title followed by twenty valid cards it returns
  four jobs.
\<close>

theorem scrape_misses_valid_cards:
  "scrape_linkedin_jobs
     \<lparr>launch = None,
      load = (\<lambda>url. Inr (map (\<lambda>t. \<lparr>title_elem = (if is_digit t then None else Some [t]),
                  company_elem = Some ''Acme'', location_elem = Some ''Pune'',
                  link_elem = Some (Some ''https://example.com/job'')\<rparr>)
                ''0123456789abcdefghijklmnopqrst''))\<rparr>
     [''Python''] ''India'' 1 5 = Inr []
   \<and> length (List.map_filter (job_of_card ''India'' (experience_level 1))
        (map (\<lambda>t. \<lparr>title_elem = (if is_digit t then None else Some [t]),
                  company_elem = Some ''Acme'', location_elem = Some ''Pune'',
                  link_elem = Some (Some ''https://example.com/job'')\<rparr>)
           ''0123456789abcdefghijklmnopqrst'')) = 20
   \<and> ls_scrape_linkedin_jobs
       \<lparr>launch = None,
        load = (\<lambda>url. Inr (map (\<lambda>t. \<lparr>ls_title_elem = (if is_digit t then None else Some [t]),
                  ls_company_elem = Some ''Acme'', ls_location_elem = Some ''Pune'',
                  ls_link_elem = Some (Some ''https://example.com/job'')\<rparr>)
                ''0abcdefghijklmnopqrst''))\<rparr>
       [''Python''] ''India'' 5 None
     = map (\<lambda>(i, t). \<lparr>ls_id = i, ls_title = [t], ls_company = ''Acme'', ls_location = ''Pune'',
                  ls_link = Some ''https://example.com/job'', ls_hr_email = None\<rparr>)
         [(2, CHR ''a''), (3, CHR ''b''), (4, CHR ''c''), (5, CHR ''d'')]
   \<and> length (List.map_filter ls_job_of_card (enumerate_from 1
        (map (\<lambda>t. \<lparr>ls_title_elem = (if is_digit t then None else Some [t]),
                  ls_company_elem = Some ''Acme'', ls_location_elem = Some ''Pune'',
                  ls_link_elem = Some (Some ''https://example.com/job'')\<rparr>)
           ''0abcdefghijklmnopqrst''))) = 20"
  by code_simp

text \<open>
  Claim C5, amended. With a cap \<^verbatim>\<open>max_jobs\<close> that is not negative, on a page that loads
  with the cards \<open>cards\<close>, \<^verbatim>\<open>scrape_linkedin_jobs\<close> of main.py reads the first
  \<^verbatim>\<open>2 * max_jobs\<close> cards only and returns the first \<^verbatim>\<open>max_jobs\<close> jobs found among them: never
  more than \<^verbatim>\<open>max_jobs\<close> jobs, whatever cards remain, in the order of the page (a prefix
  of the jobs of the whole page), and exactly the first \<^verbatim>\<open>max_jobs\<close> jobs of the page when
  at least \<^verbatim>\<open>max_jobs\<close> of the first \<^verbatim>\<open>2 * max_jobs\<close> cards are valid. The function of the
  scraper module reads the first \<^verbatim>\<open>max_jobs\<close> cards only and returns the jobs found among
  them, numbered by the position of their cards: never more than \<^verbatim>\<open>max_jobs\<close> jobs, in the
  order of the page. In particular both return exactly the first five jobs, in the order
  of the page, on a page of twenty valid cards with the cap 5.
\<close>

theorem scrape_reads_bounded_cards:
  "(0 \<le> max_jobs \<and> launch b = None
      \<and> load b (search_url skills location years) = Inr cards \<longrightarrow>
     scrape_linkedin_jobs b skills location years max_jobs =
       Inr (take (nat max_jobs)
         (List.map_filter (job_of_card location (experience_level years))
            (take (2 * nat max_jobs) cards)))
     \<and> length (take (nat max_jobs)
         (List.map_filter (job_of_card location (experience_level years))
            (take (2 * nat max_jobs) cards))) \<le> nat max_jobs
     \<and> prefix (take (nat max_jobs)
         (List.map_filter (job_of_card location (experience_level years))
            (take (2 * nat max_jobs) cards)))
         (List.map_filter (job_of_card location (experience_level years)) cards)
     \<and> (nat max_jobs \<le> length (List.map_filter (job_of_card location (experience_level years))
            (take (2 * nat max_jobs) cards)) \<longrightarrow>
        take (nat max_jobs)
         (List.map_filter (job_of_card location (experience_level years))
            (take (2 * nat max_jobs) cards))
          = take (nat max_jobs)
              (List.map_filter (job_of_card location (experience_level years)) cards)
        \<and> length (take (nat max_jobs)
         (List.map_filter (job_of_card location (experience_level years))
            (take (2 * nat max_jobs) cards))) = nat max_jobs))
   \<and> (0 \<le> max_jobs \<and> launch b' = None
      \<and> load b' (ls_url skills location years') = Inr cards' \<longrightarrow>
     ls_scrape_linkedin_jobs b' skills location max_jobs years' =
       List.map_filter ls_job_of_card (enumerate_from 1 (take (nat max_jobs) cards'))
     \<and> length (List.map_filter ls_job_of_card (enumerate_from 1 (take (nat max_jobs) cards')))
         \<le> nat max_jobs
     \<and> prefix (List.map_filter ls_job_of_card (enumerate_from 1 (take (nat max_jobs) cards')))
         (List.map_filter ls_job_of_card (enumerate_from 1 cards')))"
proof -
  let ?f = "job_of_card location (experience_level years)"
  let ?m = "nat max_jobs"
  let ?js = "take ?m (List.map_filter ?f (take (2 * ?m) cards))"
  let ?ls = "List.map_filter ls_job_of_card (enumerate_from 1 (take ?m cards'))"
  have pre: "prefix ?js (List.map_filter ?f cards)"
  proof -
    have "prefix ?js (List.map_filter ?f (take (2 * ?m) cards))"
      by (rule take_is_prefix)
    moreover have "prefix (List.map_filter ?f (take (2 * ?m) cards)) (List.map_filter ?f cards)"
      by (rule map_filter_take_prefix)
    ultimately show ?thesis by (rule prefix_order.trans)
  qed
  have full: "?js = take ?m (List.map_filter ?f cards) \<and> length ?js = ?m"
    if "?m \<le> length (List.map_filter ?f (take (2 * ?m) cards))"
  proof
    show "?js = take ?m (List.map_filter ?f cards)"
      using that by (rule take_map_filter_window)
    show "length ?js = ?m"
      using that by simp
  qed
  have ls_len: "length ?ls \<le> ?m"
  proof -
    have "length ?ls \<le> length (enumerate_from 1 (take ?m cards'))"
      by (rule length_map_filter_le)
    then show ?thesis by (simp add: length_enumerate_from)
  qed
  have ls_pre: "prefix ?ls (List.map_filter ls_job_of_card (enumerate_from 1 cards'))"
    unfolding enumerate_from_take by (rule map_filter_take_prefix)
  have main: "scrape_linkedin_jobs b skills location years max_jobs = Inr ?js"
    if "0 \<le> max_jobs" "launch b = None" "load b (search_url skills location years) = Inr cards"
    using scrape_linkedin_jobs_cards [OF that(2,3,1)] .
  have ls: "ls_scrape_linkedin_jobs b' skills location max_jobs years' = ?ls"
    if "0 \<le> max_jobs" "launch b' = None" "load b' (ls_url skills location years') = Inr cards'"
    using ls_scrape_cards [OF that(2,3,1)] .
  have len: "length ?js \<le> ?m" by simp
  show ?thesis
    using main ls pre full len ls_len ls_pre by blast
qed

text \<open>Twenty valid cards and the cap 5: exactly the first five jobs, in the order of the page.\<close>

theorem scrape_reads_bounded_cards_witness:
  "(0::int) \<le> 5
   \<and> scrape_linkedin_jobs
       \<lparr>launch = None,
        load = (\<lambda>url. Inr (map (\<lambda>t. \<lparr>title_elem = Some [t], company_elem = Some ''Acme'',
                  location_elem = Some ''Pune'', link_elem = Some (Some ''https://example.com/job'')\<rparr>)
                ''abcdefghijklmnopqrst''))\<rparr>
       [''Python''] ''India'' 1 5
     = Inr (map (\<lambda>t. \<lparr>job_title = [t], job_company = ''Acme'', job_location = ''Pune'',
                  job_link = ''https://example.com/job'', job_experience_level = ''Entry level''\<rparr>)
             ''abcde'')
   \<and> ls_scrape_linkedin_jobs
       \<lparr>launch = None,
        load = (\<lambda>url. Inr (map (\<lambda>t. \<lparr>ls_title_elem = Some [t], ls_company_elem = Some ''Acme'',
                  ls_location_elem = Some ''Pune'',
                  ls_link_elem = Some (Some ''https://example.com/job'')\<rparr>)
                ''abcdefghijklmnopqrst''))\<rparr>
       [''Python''] ''India'' 5 None
     = map (\<lambda>(i, t). \<lparr>ls_id = i, ls_title = [t], ls_company = ''Acme'', ls_location = ''Pune'',
                  ls_link = Some ''https://example.com/job'', ls_hr_email = None\<rparr>)
         [(1, CHR ''a''), (2, CHR ''b''), (3, CHR ''c''), (4, CHR ''d''), (5, CHR ''e'')]"
proof -
  let ?cards = "map (\<lambda>t. \<lparr>title_elem = Some [t], company_elem = Some ''Acme'',
                  location_elem = Some ''Pune'', link_elem = Some (Some ''https://example.com/job'')\<rparr>)
                ''abcdefghijklmnopqrst''"
  let ?b = "\<lparr>launch = None, load = (\<lambda>url. Inr ?cards)\<rparr>"
  let ?lcards = "map (\<lambda>t. \<lparr>ls_title_elem = Some [t], ls_company_elem = Some ''Acme'',
                  ls_location_elem = Some ''Pune'',
                  ls_link_elem = Some (Some ''https://example.com/job'')\<rparr>)
                ''abcdefghijklmnopqrst''"
  let ?lb = "\<lparr>launch = None, load = (\<lambda>url. Inr ?lcards)\<rparr>"
  have ev: "take (nat 5) (List.map_filter (job_of_card ''India'' (experience_level 1))
              (take (2 * nat 5) ?cards))
      = map (\<lambda>t. \<lparr>job_title = [t], job_company = ''Acme'', job_location = ''Pune'',
                  job_link = ''https://example.com/job'', job_experience_level = ''Entry level''\<rparr>)
             ''abcde''"
    by code_simp
  have lev: "List.map_filter ls_job_of_card (enumerate_from 1 (take (nat 5) ?lcards))
      = map (\<lambda>(i, t). \<lparr>ls_id = i, ls_title = [t], ls_company = ''Acme'', ls_location = ''Pune'',
                  ls_link = Some ''https://example.com/job'', ls_hr_email = None\<rparr>)
         [(1, CHR ''a''), (2, CHR ''b''), (3, CHR ''c''), (4, CHR ''d''), (5, CHR ''e'')]"
    by code_simp
  have h1: "(0::int) \<le> 5 \<and> launch ?b = None
      \<and> load ?b (search_url [''Python''] ''India'' 1) = Inr ?cards"
    by simp
  have h2: "(0::int) \<le> 5 \<and> launch ?lb = None
      \<and> load ?lb (ls_url [''Python''] ''India'' None) = Inr ?lcards"
    by simp
  from scrape_reads_bounded_cards
         [of 5 ?b "[''Python'']" "''India''" 1 ?cards ?lb None ?lcards] h1 h2
  have "scrape_linkedin_jobs ?b [''Python''] ''India'' 1 5
      = Inr (take (nat 5) (List.map_filter (job_of_card ''India'' (experience_level 1))
              (take (2 * nat 5) ?cards)))
    \<and> ls_scrape_linkedin_jobs ?lb [''Python''] ''India'' 5 None
      = List.map_filter ls_job_of_card (enumerate_from 1 (take (nat 5) ?lcards))"
    by blast
  then show ?thesis unfolding ev lev by simp
qed

text \<open>
  Claim C4 holds on main.py (lemma \<open>scrape_skips_malformed_cards\<close>) and fails in the
  scraper module: there the location element is looked up inside the \<^verbatim>\<open>try\<close> like the
  others, so a card that lacks only its location is skipped, where main.py keeps it with
  the location that was asked for.
\<close>

theorem ls_skips_card_without_location:
  "ls_scrape_linkedin_jobs
     \<lparr>launch = None,
      load = (\<lambda>url. Inr [\<lparr>ls_title_elem = Some ''Engineer'', ls_company_elem = Some ''Acme'',
                ls_location_elem = None, ls_link_elem = Some (Some ''https://example.com/1'')\<rparr>])\<rparr>
     [''Python''] ''India'' 10 None = []
   \<and> scrape_linkedin_jobs
       \<lparr>launch = None,
        load = (\<lambda>url. Inr [\<lparr>title_elem = Some ''Engineer'', company_elem = Some ''Acme'',
                  location_elem = None, link_elem = Some (Some ''https://example.com/1'')\<rparr>])\<rparr>
       [''Python''] ''India'' 0 10
     = Inr [\<lparr>job_title = ''Engineer'', job_company = ''Acme'', job_location = ''India'',
             job_link = ''https://example.com/1'', job_experience_level = ''Internship''\<rparr>]"
  by code_simp

section \<open>A browser that does not start\<close>

lemma scrape_launch_error:
  "launch b = Some e \<Longrightarrow> scrape_linkedin_jobs b skills location years max_jobs = Inl e"
  by (simp add: scrape_linkedin_jobs_def)

lemma ls_scrape_launch_error:
  "launch b = Some e \<Longrightarrow> ls_scrape_linkedin_jobs b skills location max_jobs years = []"
  by (simp add: ls_scrape_linkedin_jobs_def)

text \<open>
  Claim C7 holds in the scraper module, where the driver is started inside the \<^verbatim>\<open>try\<close>,
  and fails on main.py, where \<^verbatim>\<open>webdriver.Chrome(...)\<close> stands before the \<^verbatim>\<open>try\<close>: the
  exception leaves \<^verbatim>\<open>scrape_linkedin_jobs\<close> instead of an empty result.
\<close>

theorem scrape_raises_when_chrome_fails:
  "scrape_linkedin_jobs \<lparr>launch = Some WebDriverException, load = (\<lambda>url. Inr [])\<rparr>
     [''Python''] ''India'' 0 10 = Inl WebDriverException
   \<and> ls_scrape_linkedin_jobs \<lparr>launch = Some WebDriverException, load = (\<lambda>url. Inr [])\<rparr>
       [''Python''] ''India'' 10 None = []"
  by (simp add: scrape_launch_error ls_scrape_launch_error)

section \<open>The search URL\<close>

lemma take_3_Cons: "take 3 (a # b # c # rest) = [a, b, c]"
  by (simp add: numeral_3_eq_3)

text \<open>Both modules build the query from the first three skills only.\<close>

lemma query_uses_three_skills:
  "encoded_query (a # b # c # rest) years = encoded_query [a, b, c] years
   \<and> search_url (a # b # c # rest) location years = search_url [a, b, c] location years
   \<and> ls_url (a # b # c # rest) location years' = ls_url [a, b, c] location years'"
  by (simp add: encoded_query_def search_url_def ls_url_def take_3_Cons)

lemma str_replace_no_char:
  "c \<notin> set new \<Longrightarrow> c \<notin> set (str_replace c new s)"
  by (induction s) (auto simp: str_replace_def)

lemma str_replace_absent:
  "c \<notin> set s \<Longrightarrow> str_replace c new s = s"
  by (induction s) (auto simp: str_replace_def)

text \<open>main.py replaces every blank, and nothing else, in the query and in the location.\<close>

lemma encoded_has_no_blank:
  "CHR '' '' \<notin> set (encoded_query skills years)
   \<and> CHR '' '' \<notin> set (encoded_location location)"
  by (simp add: encoded_query_def encoded_location_def str_replace_no_char)

lemma encoded_location_unchanged:
  "CHR '' '' \<notin> set location \<Longrightarrow> encoded_location location = location"
  by (simp add: encoded_location_def str_replace_absent)

text \<open>
  Claim C6 fails in its second half. main.py encodes the blanks only: a skill such as
  \<^verbatim>\<open>C#\<close> leaves its number sign in the query, and an ampersand of the location stays. The
  scraper module encodes nothing: the blanks of a skill and of the location are in the
  URL as they are.
\<close>

theorem query_is_not_url_safe:
  "encoded_query [''C#'', ''React''] 1 = ''C#%20React%20Entry%20level''
   \<and> \<not> url_safe (encoded_query [''C#'', ''React''] 1)
   \<and> encoded_location ''Goa & Pune'' = ''Goa%20&%20Pune''
   \<and> \<not> url_safe (encoded_location ''Goa & Pune'')
   \<and> ls_url [''machine learning''] ''New Delhi'' None =
       ''https://www.linkedin.com/jobs/search/?keywords=machine learning&location=New Delhi''
   \<and> CHR '' '' \<in> set (ls_url [''machine learning''] ''New Delhi'' None)"
  by code_simp

end
